theory Spec2Isabelle
  imports Complex_Main
begin

section \<open>JavaScript values used by the dashboards\<close>

text \<open>
  A JavaScript number is a double: a finite value, one of the two infinities, or NaN.
  Comparison of doubles is exact, so the finite values are ordered as the reals they
  denote; every comparison with NaN is false.
\<close>

datatype jsnum = NaN | NegInf | Fin real | PosInf

fun js_lt :: "jsnum \<Rightarrow> jsnum \<Rightarrow> bool" where
  "js_lt (Fin a) (Fin b) = (a < b)"
| "js_lt NegInf (Fin b) = True"
| "js_lt NegInf PosInf = True"
| "js_lt (Fin a) PosInf = True"
| "js_lt _ _ = False"

definition js_gt :: "jsnum \<Rightarrow> jsnum \<Rightarrow> bool" where
  "js_gt a b = js_lt b a"

definition isNaN :: "jsnum \<Rightarrow> bool" where
  "isNaN x = (x = NaN)"

text \<open>
  The \<open>detail\<close> of an error response is JSON of any type. \<open>JString\<close> is a string
  (falsy when empty), \<open>JOther\<close> any truthy value that is not a string (such as a list of
  validation errors); a missing or otherwise falsy detail is \<open>None\<close>.
\<close>

datatype jsvalue = JString string | JOther

fun truthy :: "jsvalue option \<Rightarrow> bool" where
  "truthy None = False"
| "truthy (Some (JString s)) = (s \<noteq> [])"
| "truthy (Some JOther) = True"

text \<open>\<open>detail || fallback\<close>\<close>

fun or_else :: "jsvalue option \<Rightarrow> string \<Rightarrow> jsvalue" where
  "or_else None fallback = JString fallback"
| "or_else (Some (JString s)) fallback = (if s \<noteq> [] then JString s else JString fallback)"
| "or_else (Some JOther) fallback = JOther"

text \<open>The outcome of an awaited request: it resolves, or rejects with the response's detail.\<close>

datatype http_result = Resolved | Rejected "jsvalue option"

section \<open>Data model\<close>

record bus_location =
  latitude :: jsnum
  longitude :: jsnum
  speed :: jsnum
  timestamp :: string

text \<open>
  A bus object. The source's field \<open>id\<close> is \<open>bus_id\<close> here. Fields that an object
  built by the client may lack are optional.
\<close>

record bus =
  bus_id :: string
  bus_number :: string
  capacity :: "nat option"
  route_name :: "string option"
  status :: "string option"
  driver_id :: "string option"
  last_location :: "bus_location option"

text \<open>The body of \<open>POST /locations\<close>.\<close>

record location_request =
  req_bus_id :: string
  req_latitude :: jsnum
  req_longitude :: jsnum
  req_speed :: jsnum
  req_heading :: jsnum

text \<open>The body of \<open>POST /emergency\<close>.\<close>

record emergency_request =
  em_bus_id :: string
  em_driver_id :: string
  em_latitude :: jsnum
  em_longitude :: jsnum
  em_description :: string

text \<open>A message sent on the streaming connection.\<close>

record ws_message =
  event :: string
  channel :: string

text \<open>What a handler does to the outside world, in the order it does it.\<close>

datatype effect =
    ToastError jsvalue
  | ToastErrorDescribed string string
  | ToastSuccess string
  | ApiGet string
  | ApiPostLocations location_request
  | ApiPostEmergency emergency_request
  | ApiPatch string
  | SendJsonMessage ws_message

record user =
  user_id :: string
  user_name :: string
  user_role :: string

section \<open>Driver dashboard\<close>

record location_form =
  form_latitude :: string
  form_longitude :: string

record driver_state =
  buses :: "bus list"
  selectedBus :: string
  location :: location_form
  emergencyDesc :: string
  loading :: bool
  busStatus :: string


definition handleUpdateLocation ::
  "(string \<Rightarrow> jsnum) \<Rightarrow> http_result \<Rightarrow> driver_state \<Rightarrow> driver_state \<times> effect list" where
  "handleUpdateLocation parseFloat resp s =
     (if selectedBus s = [] \<or> form_latitude (location s) = [] \<or> form_longitude (location s) = []
      then (s, [ToastError (JString ''Please select a bus and enter valid coordinates'')])
      else
        let lat = parseFloat (form_latitude (location s));
            lng = parseFloat (form_longitude (location s))
        in if isNaN lat \<or> isNaN lng
           then (s, [ToastError (JString ''Please enter valid numeric coordinates'')])
           else if js_lt lat (Fin (- 90)) \<or> js_gt lat (Fin 90)
           then (s, [ToastError (JString ''Latitude must be between -90 and 90'')])
           else if js_lt lng (Fin (- 180)) \<or> js_gt lng (Fin 180)
           then (s, [ToastError (JString ''Longitude must be between -180 and 180'')])
           else
             let request = ApiPostLocations
                   \<lparr>req_bus_id = selectedBus s, req_latitude = lat, req_longitude = lng,
                    req_speed = Fin 0, req_heading = Fin 0\<rparr>
             in case resp of
                  Resolved \<Rightarrow>
                    (s\<lparr>loading := False\<rparr>,
                     [request,
                      ToastSuccess (CHR 0xE2 # CHR 0x9C # CHR 0x93 # '' Location updated successfully'')])
                | Rejected detail \<Rightarrow>
                    (s\<lparr>loading := False\<rparr>,
                     [request, ToastError (or_else detail ''Failed to update location'')]))"

definition handleEmergency ::
  "(string \<Rightarrow> jsnum) \<Rightarrow> user \<Rightarrow> http_result \<Rightarrow> driver_state \<Rightarrow> driver_state \<times> effect list" where
  "handleEmergency parseFloat usr resp s =
     (if selectedBus s = [] \<or> form_latitude (location s) = [] \<or> form_longitude (location s) = []
      then (s, [ToastError (JString ''Please ensure bus and location are set'')])
      else
        let request = ApiPostEmergency
              \<lparr>em_bus_id = selectedBus s,
               em_driver_id = user_id usr,
               em_latitude = parseFloat (form_latitude (location s)),
               em_longitude = parseFloat (form_longitude (location s)),
               em_description = (if emergencyDesc s \<noteq> [] then emergencyDesc s
                                 else ''Emergency situation reported by driver'')\<rparr>
        in case resp of
             Resolved \<Rightarrow>
               (s\<lparr>emergencyDesc := [], loading := False\<rparr>,
                [request, ToastSuccess ''Emergency alert sent to transport department''])
           | Rejected detail \<Rightarrow>
               (s\<lparr>loading := False\<rparr>,
                [request,
                 ToastError (JString (if truthy detail
                                      then (case detail of Some (JString d) \<Rightarrow> d
                                              | _ \<Rightarrow> ''Failed to send emergency alert'')
                                      else ''Failed to send emergency alert''))]))"

text \<open>
  An instance of the parameter \<open>parseFloat\<close> for the concrete runs below. On a plain
  decimal numeral (an optional minus sign, digits, and optionally a point and more digits)
  it gives the number the numeral denotes, as the built-in does for the numerals used
  here. On every other string it gives NaN, which the built-in does not always do; no
  theorem about the handlers depends on it.
\<close>

fun digit_of :: "char \<Rightarrow> nat option" where
  "digit_of c =
     (let n = (of_char c :: nat) in if 48 \<le> n \<and> n \<le> 57 then Some (n - 48) else None)"

fun digits_value :: "nat \<Rightarrow> string \<Rightarrow> nat option" where
  "digits_value acc [] = Some acc"
| "digits_value acc (c # cs) =
     (case digit_of c of None \<Rightarrow> None | Some d \<Rightarrow> digits_value (10 * acc + d) cs)"

definition unsigned_value :: "string \<Rightarrow> real option" where
  "unsigned_value str =
     (let whole = takeWhile (\<lambda>c. c \<noteq> CHR ''.'') str;
          rest = dropWhile (\<lambda>c. c \<noteq> CHR ''.'') str;
          frac = (if rest = [] then [] else tl rest)
      in if whole = [] \<or> (rest \<noteq> [] \<and> frac = []) then None
         else case (digits_value 0 whole, digits_value 0 frac) of
                (Some w, Some f) \<Rightarrow> Some (real w + real f / 10 ^ length frac)
              | _ \<Rightarrow> None)"

definition parseFloat_plain :: "string \<Rightarrow> jsnum" where
  "parseFloat_plain str =
     (case str of
        [] \<Rightarrow> NaN
      | c # cs \<Rightarrow>
          if c = CHR ''-'' then (case unsigned_value cs of None \<Rightarrow> NaN | Some r \<Rightarrow> Fin (- r))
          else (case unsigned_value str of None \<Rightarrow> NaN | Some r \<Rightarrow> Fin r))"

text \<open>
  The coordinate ranges of the data model: latitude in [-90, 90] and longitude in
  [-180, 180], both ends included. NaN and the infinities are in no range.
\<close>

fun in_range :: "real \<Rightarrow> real \<Rightarrow> jsnum \<Rightarrow> bool" where
  "in_range lo hi (Fin r) = (lo \<le> r \<and> r \<le> hi)"
| "in_range lo hi _ = False"

definition valid_coordinates :: "jsnum \<Rightarrow> jsnum \<Rightarrow> bool" where
  "valid_coordinates lat lng = (in_range (- 90) 90 lat \<and> in_range (- 180) 180 lng)"

definition requests :: "effect list \<Rightarrow> effect list" where
  "requests es = filter (\<lambda>e. case e of ApiGet _ \<Rightarrow> True | ApiPostLocations _ \<Rightarrow> True
                                | ApiPostEmergency _ \<Rightarrow> True | ApiPatch _ \<Rightarrow> True | _ \<Rightarrow> False) es"

definition driver_at :: "string \<Rightarrow> string \<Rightarrow> string \<Rightarrow> driver_state" where
  "driver_at b lat lng =
     \<lparr>buses = [], selectedBus = b, location = \<lparr>form_latitude = lat, form_longitude = lng\<rparr>,
      emergencyDesc = [], loading = False, busStatus = ''inactive''\<rparr>"

section \<open>Events of the streaming connection\<close>

text \<open>The \<open>data\<close> of a \<open>location_update\<close> event.\<close>

record location_data =
  data_bus_id :: string
  data_bus_number :: string
  data_latitude :: jsnum
  data_longitude :: jsnum
  data_speed :: jsnum
  data_timestamp :: string

text \<open>An emergency alert, as listed by \<open>/emergency\<close> and as the \<open>data\<close> of an
  \<open>emergency_alert\<close> event.\<close>

record alert =
  alert_id :: string
  alert_bus_number :: string
  alert_description :: string
  alert_status :: string
  alert_timestamp :: string

text \<open>\<open>lastJsonMessage\<close>, by its \<open>event\<close> field; \<open>OtherEvent\<close> is any other message.\<close>

datatype ws_event = LocationUpdate location_data | EmergencyAlert alert | OtherEvent

text \<open>\<open>Array.prototype.findIndex\<close>: the first index whose element satisfies the predicate,
  or -1.\<close>

fun findIndex :: "('a \<Rightarrow> bool) \<Rightarrow> 'a list \<Rightarrow> int" where
  "findIndex P [] = - 1"
| "findIndex P (x # xs) =
     (if P x then 0 else (let i = findIndex P xs in if i > - 1 then i + 1 else - 1))"

definition new_location :: "location_data \<Rightarrow> bus_location" where
  "new_location d =
     \<lparr>latitude = data_latitude d, longitude = data_longitude d,
      speed = data_speed d, timestamp = data_timestamp d\<rparr>"

text \<open>The updater passed to \<open>setBuses\<close> by the transport dashboard's \<open>location_update\<close>
  handler.\<close>

definition transport_location_update :: "location_data \<Rightarrow> bus list \<Rightarrow> bus list" where
  "transport_location_update d prev =
     (let index = findIndex (\<lambda>b. bus_id b = data_bus_id d) prev
      in if index > - 1
         then prev[nat index := (prev ! nat index)\<lparr>status := Some ''active'',
                                                    last_location := Some (new_location d)\<rparr>]
         else prev)"

text \<open>The updater passed to \<open>setBuses\<close> by the student dashboard's \<open>location_update\<close>
  handler.\<close>

definition newBus :: "location_data \<Rightarrow> bus" where
  "newBus d =
     \<lparr>bus_id = data_bus_id d, bus_number = data_bus_number d, capacity = None, route_name = None,
      status = Some ''active'', driver_id = None, last_location = Some (new_location d)\<rparr>"

definition student_location_update :: "location_data \<Rightarrow> bus list \<Rightarrow> bus list" where
  "student_location_update d prev =
     (let index = findIndex (\<lambda>b. bus_id b = data_bus_id d) prev
      in if index > - 1 then prev[nat index := newBus d] else prev @ [newBus d])"

text \<open>The subscribe effect, the same in both dashboards; \<open>readyState\<close> 1 is OPEN.\<close>

definition subscribe_effect :: "nat \<Rightarrow> effect list" where
  "subscribe_effect readyState =
     (if readyState = 1
      then [SendJsonMessage \<lparr>event = ''subscribe'', channel = ''bus_locations''\<rparr>,
            SendJsonMessage \<lparr>event = ''subscribe'', channel = ''emergency_alerts''\<rparr>]
      else [])"

fun sent_messages :: "effect list \<Rightarrow> ws_message list" where
  "sent_messages [] = []"
| "sent_messages (SendJsonMessage m # es) = m # sent_messages es"
| "sent_messages (_ # es) = sent_messages es"

section \<open>Transport dashboard\<close>

text \<open>
  The component as a step function. An effect hook runs after the first render and after
  each render in which one of its dependencies has changed: the subscribe effect depends
  on \<open>readyState\<close>, the message effect on \<open>lastJsonMessage\<close>, and the fetching effect on
  nothing, so it runs at the mount only. \<open>lastJsonMessage\<close> is null at the mount, and
  \<open>sendJsonMessage\<close> is the same function in every render. A state of the connection
  other than 1 is not OPEN (0 is CONNECTING, 3 is CLOSED). The responses to \<open>fetchBuses\<close>
  and \<open>fetchAlerts\<close> are events of their own, \<open>None\<close> standing for a rejected request.
  The add-bus dialog is left out; like the status toggle it ends in \<open>fetchBuses\<close>.
\<close>

record transport_state =
  transport_buses :: "bus list"
  transport_alerts :: "alert list"
  transport_readyState :: nat

datatype transport_event =
    TMount
  | TReadyState nat
  | TMessage ws_event
  | TBusesResponse "bus list option"
  | TAlertsResponse "alert list option"
  | TResolveAlert string http_result
  | TToggleBusStatus string "string option" http_result

fun transport_step :: "transport_event \<Rightarrow> transport_state \<Rightarrow> transport_state \<times> effect list" where
  "transport_step TMount s =
     (s, subscribe_effect (transport_readyState s) @ [ApiGet ''/buses'', ApiGet ''/emergency''])"
| "transport_step (TReadyState r) s =
     (if r = transport_readyState s then (s, [])
      else (s\<lparr>transport_readyState := r\<rparr>, subscribe_effect r))"
| "transport_step (TMessage (LocationUpdate d)) s =
     (s\<lparr>transport_buses := transport_location_update d (transport_buses s)\<rparr>, [])"
| "transport_step (TMessage (EmergencyAlert a)) s =
     (s\<lparr>transport_alerts := a # transport_alerts s\<rparr>,
      [ToastErrorDescribed
         (CHR 0xF0 # CHR 0x9F # CHR 0x9A # CHR 0xA8 # '' Emergency Alert: Bus '' @ alert_bus_number a)
         (alert_description a)])"
| "transport_step (TMessage OtherEvent) s = (s, [])"
| "transport_step (TBusesResponse (Some bs)) s = (s\<lparr>transport_buses := bs\<rparr>, [])"
| "transport_step (TBusesResponse None) s = (s, [ToastError (JString ''Failed to fetch buses'')])"
| "transport_step (TAlertsResponse (Some as)) s = (s\<lparr>transport_alerts := as\<rparr>, [])"
| "transport_step (TAlertsResponse None) s = (s, [ToastError (JString ''Failed to fetch alerts'')])"
| "transport_step (TResolveAlert alertId Resolved) s =
     (s, [ApiPatch (''/emergency/'' @ alertId @ ''/resolve''), ToastSuccess ''Alert resolved'',
          ApiGet ''/emergency''])"
| "transport_step (TResolveAlert alertId (Rejected detail)) s =
     (s, [ApiPatch (''/emergency/'' @ alertId @ ''/resolve''),
          ToastError (JString ''Failed to resolve alert'')])"
| "transport_step (TToggleBusStatus busId currentStatus resp) s =
     (let newStatus = (if currentStatus = Some ''active'' then ''inactive'' else ''active'');
          request = ApiPatch (''/buses/'' @ busId @ ''/status?status='' @ newStatus)
      in case resp of
           Resolved \<Rightarrow>
             (s, [request,
                  ToastSuccess (''Bus '' @ (if newStatus = ''active'' then ''activated'' else ''deactivated'')
                                @ '' successfully''),
                  ApiGet ''/buses''])
         | Rejected detail \<Rightarrow>
             (s, [request, ToastError (or_else detail ''Failed to update bus status'')]))"

definition transport_init :: transport_state where
  "transport_init = \<lparr>transport_buses = [], transport_alerts = [], transport_readyState = 0\<rparr>"

section \<open>Student dashboard\<close>

record map_center =
  lat :: jsnum
  lng :: jsnum

record student_state =
  student_buses :: "bus list"
  student_selectedBus :: "bus option"
  student_mapCenter :: map_center
  student_readyState :: nat

datatype student_event =
    SMount
  | SReadyState nat
  | SMessage ws_event
  | SBusesResponse "bus list option"
  | SBusClick bus

fun student_step :: "student_event \<Rightarrow> student_state \<Rightarrow> student_state \<times> effect list" where
  "student_step SMount s =
     (s, subscribe_effect (student_readyState s) @ [ApiGet ''/locations/latest''])"
| "student_step (SReadyState r) s =
     (if r = student_readyState s then (s, [])
      else (s\<lparr>student_readyState := r\<rparr>, subscribe_effect r))"
| "student_step (SMessage (LocationUpdate d)) s =
     (s\<lparr>student_buses := student_location_update d (student_buses s)\<rparr>, [])"
| "student_step (SMessage (EmergencyAlert a)) s =
     (s, [ToastErrorDescribed (''Emergency Alert: Bus '' @ alert_bus_number a) (alert_description a)])"
| "student_step (SMessage OtherEvent) s = (s, [])"
| "student_step (SBusesResponse (Some bs)) s = (s\<lparr>student_buses := bs\<rparr>, [])"
| "student_step (SBusesResponse None) s = (s, [])"
| "student_step (SBusClick b) s =
     (case last_location b of
        None \<Rightarrow> (s\<lparr>student_selectedBus := Some b\<rparr>, [])
      | Some l \<Rightarrow>
          (s\<lparr>student_selectedBus := Some b,
             student_mapCenter := \<lparr>lat = latitude l, lng = longitude l\<rparr>\<rparr>, []))"

definition student_init :: student_state where
  "student_init =
     \<lparr>student_buses = [], student_selectedBus = None,
      student_mapCenter = \<lparr>lat = Fin 28.6139, lng = Fin 77.2090\<rparr>, student_readyState = 0\<rparr>"

text \<open>Running a component over a list of events, oldest first.\<close>

fun run :: "('e \<Rightarrow> 's \<Rightarrow> 's \<times> effect list) \<Rightarrow> 'e list \<Rightarrow> 's \<Rightarrow> 's" where
  "run step [] s = s"
| "run step (e # es) s = run step es (fst (step e s))"

section \<open>Roles and routing\<close>









text \<open>Sample data for the concrete runs.\<close>

definition bus_B1_twin :: bus where
  "bus_B1_twin =
     \<lparr>bus_id = ''B1'', bus_number = ''101b'', capacity = Some 50, route_name = Some ''Main Campus Route'',
      status = Some ''inactive'', driver_id = Some ''D1'',
      last_location = Some \<lparr>latitude = Fin 28.6139, longitude = Fin 77.2090, speed = Fin 0,
                              timestamp = ''2024-01-01T10:00:00Z''\<rparr>\<rparr>"



definition bus_B1 :: bus where
  "bus_B1 =
     \<lparr>bus_id = ''B1'', bus_number = ''101'', capacity = Some 50, route_name = Some ''Main Campus Route'',
      status = Some ''inactive'', driver_id = Some ''D1'',
      last_location = Some \<lparr>latitude = Fin 28.6139, longitude = Fin 77.2090, speed = Fin 0,
                              timestamp = ''2024-01-01T10:00:00Z''\<rparr>\<rparr>"

definition bus_B2 :: bus where
  "bus_B2 =
     \<lparr>bus_id = ''B2'', bus_number = ''102'', capacity = Some 40, route_name = Some ''Hostel Route'',
      status = Some ''inactive'', driver_id = None, last_location = None\<rparr>"

definition update_B1 :: location_data where
  "update_B1 =
     \<lparr>data_bus_id = ''B1'', data_bus_number = ''101'', data_latitude = Fin 28.7,
      data_longitude = Fin 77.1, data_speed = Fin 12, data_timestamp = ''2024-01-01T10:05:00Z''\<rparr>"

definition update_B9 :: location_data where
  "update_B9 =
     \<lparr>data_bus_id = ''B9'', data_bus_number = ''109'', data_latitude = Fin 28.5,
      data_longitude = Fin 77.3, data_speed = Fin 0, data_timestamp = ''2024-01-01T10:06:00Z''\<rparr>"

definition driver_D1 :: user where
  "driver_D1 = \<lparr>user_id = ''D1'', user_name = ''Asha'', user_role = ''driver''\<rparr>"

section \<open>Coordinate validation of a location report\<close>

lemma js_lt_Fin_iff: "js_lt x (Fin b) = (x = NegInf \<or> (\<exists>r. x = Fin r \<and> r < b))"
  by (cases x) auto

lemma js_gt_Fin_iff: "js_gt x (Fin b) = (x = PosInf \<or> (\<exists>r. x = Fin r \<and> b < r))"
  by (cases x) (auto simp: js_gt_def)

lemma in_range_iff:
  "in_range lo hi x = (\<not> isNaN x \<and> \<not> js_lt x (Fin lo) \<and> \<not> js_gt x (Fin hi))"
  by (cases x) (auto simp: isNaN_def js_gt_def)

lemma handleUpdateLocation_rejects:
  assumes "\<not> valid_coordinates (pf (form_latitude (location s))) (pf (form_longitude (location s)))"
  shows "\<exists>msg. handleUpdateLocation pf resp s = (s, [ToastError (JString msg)])"
  using assms
  by (auto simp: handleUpdateLocation_def valid_coordinates_def in_range_iff Let_def)

lemma handleUpdateLocation_sends:
  assumes "selectedBus s \<noteq> []" "form_latitude (location s) \<noteq> []" "form_longitude (location s) \<noteq> []"
    and "valid_coordinates (pf (form_latitude (location s))) (pf (form_longitude (location s)))"
  shows "requests (snd (handleUpdateLocation pf resp s)) =
           [ApiPostLocations \<lparr>req_bus_id = selectedBus s,
              req_latitude = pf (form_latitude (location s)),
              req_longitude = pf (form_longitude (location s)),
              req_speed = Fin 0, req_heading = Fin 0\<rparr>]"
  using assms
  by (auto simp: handleUpdateLocation_def valid_coordinates_def in_range_iff Let_def requests_def
           split: http_result.splits)

lemma parseFloat_plain_samples:
  "parseFloat_plain ''999'' = Fin 999" "parseFloat_plain ''0'' = Fin 0"
  "parseFloat_plain ''90'' = Fin 90" "parseFloat_plain ''-180'' = Fin (- 180)"
  by (simp_all add: parseFloat_plain_def unsigned_value_def)

text \<open>
  Claim C2. Whatever the two coordinate fields parse to, if the latitude is not in
  [-90, 90] or the longitude is not in [-180, 180] (both ends are valid), the location
  report is rejected with an error message, no request is issued and the state is
  unchanged; if a bus is selected, both fields are filled in and the pair is in bounds,
  exactly one request is issued, the \<open>POST /locations\<close> carrying the bus and the pair.
\<close>

theorem reportLocation_bounds:
  "(\<not> valid_coordinates (pf (form_latitude (location s))) (pf (form_longitude (location s))) \<longrightarrow>
      fst (handleUpdateLocation pf resp s) = s
      \<and> requests (snd (handleUpdateLocation pf resp s)) = []
      \<and> (\<exists>msg. snd (handleUpdateLocation pf resp s) = [ToastError (JString msg)]))
   \<and> (selectedBus s \<noteq> [] \<and> form_latitude (location s) \<noteq> [] \<and> form_longitude (location s) \<noteq> []
      \<and> valid_coordinates (pf (form_latitude (location s))) (pf (form_longitude (location s))) \<longrightarrow>
      requests (snd (handleUpdateLocation pf resp s)) =
        [ApiPostLocations \<lparr>req_bus_id = selectedBus s,
           req_latitude = pf (form_latitude (location s)),
           req_longitude = pf (form_longitude (location s)),
           req_speed = Fin 0, req_heading = Fin 0\<rparr>])"
proof (intro conjI impI)
  assume out: "\<not> valid_coordinates (pf (form_latitude (location s))) (pf (form_longitude (location s)))"
  from handleUpdateLocation_rejects [OF out, of resp]
  obtain msg where r: "handleUpdateLocation pf resp s = (s, [ToastError (JString msg)])" by blast
  show "fst (handleUpdateLocation pf resp s) = s" by (simp add: r)
  show "requests (snd (handleUpdateLocation pf resp s)) = []" by (simp add: r requests_def)
  show "\<exists>msg. snd (handleUpdateLocation pf resp s) = [ToastError (JString msg)]" by (simp add: r)
next
  assume "selectedBus s \<noteq> [] \<and> form_latitude (location s) \<noteq> [] \<and> form_longitude (location s) \<noteq> []
      \<and> valid_coordinates (pf (form_latitude (location s))) (pf (form_longitude (location s)))"
  then show "requests (snd (handleUpdateLocation pf resp s)) =
        [ApiPostLocations \<lparr>req_bus_id = selectedBus s,
           req_latitude = pf (form_latitude (location s)),
           req_longitude = pf (form_longitude (location s)),
           req_speed = Fin 0, req_heading = Fin 0\<rparr>]"
    by (simp add: handleUpdateLocation_sends)
qed

theorem reportLocation_bounds_witness:
  "\<not> valid_coordinates (Fin 999) (Fin 0)
   \<and> handleUpdateLocation parseFloat_plain Resolved (driver_at ''B1'' ''999'' ''0'')
       = (driver_at ''B1'' ''999'' ''0'', [ToastError (JString ''Latitude must be between -90 and 90'')])
   \<and> valid_coordinates (Fin 90) (Fin (- 180))
   \<and> requests (snd (handleUpdateLocation parseFloat_plain Resolved (driver_at ''B1'' ''90'' ''-180''))) =
        [ApiPostLocations \<lparr>req_bus_id = ''B1'', req_latitude = Fin 90, req_longitude = Fin (- 180),
           req_speed = Fin 0, req_heading = Fin 0\<rparr>]"
  using reportLocation_bounds [of parseFloat_plain "driver_at ''B1'' ''999'' ''0''" Resolved]
        reportLocation_bounds [of parseFloat_plain "driver_at ''B1'' ''90'' ''-180''" Resolved]
  by (simp add: parseFloat_plain_samples driver_at_def valid_coordinates_def handleUpdateLocation_def
        isNaN_def js_gt_def)

section \<open>The location update handlers\<close>

lemma findIndex_found: "(findIndex P xs > - 1) = (\<exists>x\<in>set xs. P x)"
  by (induction xs) (auto simp: Let_def)

lemma findIndex_bounds: "- 1 \<le> findIndex P xs \<and> findIndex P xs < int (length xs)"
  by (induction xs) (auto simp: Let_def)

lemma findIndex_sat: "findIndex P xs > - 1 \<Longrightarrow> P (xs ! nat (findIndex P xs))"
proof (induction xs)
  case Nil
  then show ?case by simp
next
  case (Cons x xs)
  show ?case
  proof (cases "P x")
    case True
    then show ?thesis by simp
  next
    case False
    with Cons.prems have pos: "findIndex P xs > - 1"
      by (simp add: Let_def split: if_splits)
    with False have "findIndex P (x # xs) = findIndex P xs + 1" by (simp add: Let_def)
    moreover have "nat (findIndex P xs + 1) = Suc (nat (findIndex P xs))" using pos by simp
    ultimately show ?thesis using Cons.IH [OF pos] by simp
  qed
qed

lemma findIndex_nat_lt: "findIndex P xs > - 1 \<Longrightarrow> nat (findIndex P xs) < length xs"
  using findIndex_bounds [of P xs] by simp

lemma filter_key_single:
  "distinct (map f xs) \<Longrightarrow> k < length xs \<Longrightarrow> f (xs ! k) = a \<Longrightarrow> filter (\<lambda>b. f b = a) xs = [xs ! k]"
proof (induction xs arbitrary: k)
  case Nil
  then show ?case by simp
next
  case (Cons x xs)
  show ?case
  proof (cases k)
    case 0
    with Cons.prems have "f x = a" "a \<notin> f ` set xs" by auto
    then have "\<forall>b\<in>set xs. f b \<noteq> a" by blast
    then have "filter (\<lambda>b. f b = a) xs = []" by (simp add: filter_empty_conv)
    with \<open>f x = a\<close> 0 show ?thesis by simp
  next
    case (Suc j)
    with Cons.prems have j: "j < length xs" "f (xs ! j) = a" "distinct (map f xs)" by auto
    from Cons.prems Suc j have "f x \<noteq> a" by (metis distinct.simps(2) image_eqI list.simps(9) nth_mem set_map)
    with Cons.IH [OF j(3) j(1) j(2)] Suc show ?thesis by simp
  qed
qed

lemma transport_update_found:
  assumes "data_bus_id d \<in> bus_id ` set prev"
  shows "\<exists>k<length prev. bus_id (prev ! k) = data_bus_id d
          \<and> transport_location_update d prev =
              prev[k := (prev ! k)\<lparr>status := Some ''active'', last_location := Some (new_location d)\<rparr>]"
proof -
  let ?P = "\<lambda>b. bus_id b = data_bus_id d"
  from assms have pos: "findIndex ?P prev > - 1" by (auto simp: findIndex_found)
  show ?thesis
    using pos findIndex_nat_lt [OF pos] findIndex_sat [of ?P prev, OF pos]
    by (intro exI [of _ "nat (findIndex ?P prev)"]) (simp add: transport_location_update_def Let_def)
qed

lemma student_update_found:
  assumes "data_bus_id d \<in> bus_id ` set prev"
  shows "\<exists>k<length prev. bus_id (prev ! k) = data_bus_id d
          \<and> student_location_update d prev = prev[k := newBus d]"
proof -
  let ?P = "\<lambda>b. bus_id b = data_bus_id d"
  from assms have pos: "findIndex ?P prev > - 1" by (auto simp: findIndex_found)
  show ?thesis
    using pos findIndex_nat_lt [OF pos] findIndex_sat [of ?P prev, OF pos]
    by (intro exI [of _ "nat (findIndex ?P prev)"]) (simp add: student_location_update_def Let_def)
qed

lemma transport_update_missing:
  "data_bus_id d \<notin> bus_id ` set prev \<Longrightarrow> transport_location_update d prev = prev"
  using findIndex_found [of "\<lambda>b. bus_id b = data_bus_id d" prev]
  by (force simp: transport_location_update_def Let_def)

lemma student_update_missing:
  "data_bus_id d \<notin> bus_id ` set prev \<Longrightarrow> student_location_update d prev = prev @ [newBus d]"
  using findIndex_found [of "\<lambda>b. bus_id b = data_bus_id d" prev]
  by (force simp: student_location_update_def Let_def)

lemma replaced_entry_unique:
  assumes "distinct (map bus_id prev)" "k < length prev" "bus_id (prev ! k) = a" "bus_id y = a"
  shows "filter (\<lambda>b. bus_id b = a) (prev[k := y]) = [y]"
proof -
  have "map bus_id (prev[k := y]) = map bus_id prev"
    using assms by (simp add: map_update list_update_same_conv)
  then have "distinct (map bus_id (prev[k := y]))" using assms(1) by simp
  from filter_key_single [OF this, of k a] assms show ?thesis by simp
qed

lemma location_update_keeps_ids_distinct:
  assumes "distinct (map bus_id prev)"
  shows "distinct (map bus_id (transport_location_update d prev))
       \<and> distinct (map bus_id (student_location_update d prev))"
proof (cases "data_bus_id d \<in> bus_id ` set prev")
  case True
  from transport_update_found [OF True] obtain k where
    k: "k < length prev" "bus_id (prev ! k) = data_bus_id d"
       "transport_location_update d prev =
          prev[k := (prev ! k)\<lparr>status := Some ''active'', last_location := Some (new_location d)\<rparr>]"
    by blast
  from student_update_found [OF True] obtain j where
    j: "j < length prev" "bus_id (prev ! j) = data_bus_id d"
       "student_location_update d prev = prev[j := newBus d]"
    by blast
  have "map bus_id (transport_location_update d prev) = map bus_id prev"
    unfolding k(3) using k(1) by (simp add: map_update list_update_same_conv)
  moreover have "map bus_id (student_location_update d prev) = map bus_id prev"
    unfolding j(3) using j(1,2) by (simp add: map_update list_update_same_conv newBus_def)
  ultimately show ?thesis using assms by simp
next
  case False
  then show ?thesis
    using assms by (simp add: transport_update_missing student_update_missing newBus_def)
qed

lemma findIndex_first:
  "findIndex P xs > - 1 \<Longrightarrow> j < nat (findIndex P xs) \<Longrightarrow> \<not> P (xs ! j)"
proof (induction xs arbitrary: j)
  case Nil
  then show ?case by simp
next
  case (Cons x xs)
  show ?case
  proof (cases "P x")
    case True
    with Cons.prems show ?thesis by simp
  next
    case False
    with Cons.prems have pos: "findIndex P xs > - 1"
      by (simp add: Let_def split: if_splits)
    with False have eq: "nat (findIndex P (x # xs)) = Suc (nat (findIndex P xs))"
      by (simp add: Let_def)
    show ?thesis
    proof (cases j)
      case 0
      with False show ?thesis by simp
    next
      case (Suc i)
      with Cons.prems(2) eq have "i < nat (findIndex P xs)" by simp
      from Cons.IH [OF pos this] Suc show ?thesis by simp
    qed
  qed
qed

lemma updates_found_first:
  assumes "data_bus_id d \<in> bus_id ` set prev"
  shows "\<exists>k<length prev. bus_id (prev ! k) = data_bus_id d
          \<and> (\<forall>j<k. bus_id (prev ! j) \<noteq> data_bus_id d)
          \<and> transport_location_update d prev =
              prev[k := (prev ! k)\<lparr>status := Some ''active'', last_location := Some (new_location d)\<rparr>]
          \<and> student_location_update d prev = prev[k := newBus d]"
proof -
  let ?P = "\<lambda>b. bus_id b = data_bus_id d"
  let ?k = "nat (findIndex ?P prev)"
  from assms have pos: "findIndex ?P prev > - 1" by (auto simp: findIndex_found)
  have first: "\<forall>j<?k. bus_id (prev ! j) \<noteq> data_bus_id d"
    using findIndex_first [of ?P prev, OF pos] by blast
  have t: "transport_location_update d prev =
              prev[?k := (prev ! ?k)\<lparr>status := Some ''active'', last_location := Some (new_location d)\<rparr>]"
    using pos by (simp add: transport_location_update_def Let_def)
  have s: "student_location_update d prev = prev[?k := newBus d]"
    using pos by (simp add: student_location_update_def Let_def)
  from findIndex_nat_lt [OF pos] findIndex_sat [of ?P prev, OF pos] first t s
  show ?thesis by blast
qed

text \<open>
  Claim C4, as the code has it. When a location update arrives for a bus that is in the
  client's list, the resulting list has the same length and the same bus ids at the same
  places, and the first entry for that bus has a \<open>last_location\<close> holding the latitude,
  longitude, speed and timestamp of the update, whatever it held before. When the list
  holds each bus id once, the resulting list has exactly one entry for that bus, and it is
  that entry. This is so in both dashboards.
\<close>

theorem location_update_overwrites:
  assumes "data_bus_id d \<in> bus_id ` set prev"
  shows "length (transport_location_update d prev) = length prev
       \<and> map bus_id (transport_location_update d prev) = map bus_id prev
       \<and> length (student_location_update d prev) = length prev
       \<and> map bus_id (student_location_update d prev) = map bus_id prev
       \<and> (\<exists>k<length prev. bus_id (prev ! k) = data_bus_id d
              \<and> (\<forall>j<k. bus_id (prev ! j) \<noteq> data_bus_id d)
              \<and> last_location (transport_location_update d prev ! k) =
                  Some \<lparr>latitude = data_latitude d, longitude = data_longitude d,
                         speed = data_speed d, timestamp = data_timestamp d\<rparr>
              \<and> last_location (student_location_update d prev ! k) =
                  Some \<lparr>latitude = data_latitude d, longitude = data_longitude d,
                         speed = data_speed d, timestamp = data_timestamp d\<rparr>)
       \<and> (distinct (map bus_id prev) \<longrightarrow>
            (\<exists>b. filter (\<lambda>b. bus_id b = data_bus_id d) (transport_location_update d prev) = [b]
                 \<and> last_location b = Some \<lparr>latitude = data_latitude d, longitude = data_longitude d,
                                            speed = data_speed d, timestamp = data_timestamp d\<rparr>)
            \<and> (\<exists>b. filter (\<lambda>b. bus_id b = data_bus_id d) (student_location_update d prev) = [b]
                 \<and> last_location b = Some \<lparr>latitude = data_latitude d, longitude = data_longitude d,
                                            speed = data_speed d, timestamp = data_timestamp d\<rparr>))"
proof -
  let ?new = "Some \<lparr>latitude = data_latitude d, longitude = data_longitude d,
                     speed = data_speed d, timestamp = data_timestamp d\<rparr>"
  let ?tb = "\<lambda>k. (prev ! k)\<lparr>status := Some ''active'', last_location := Some (new_location d)\<rparr>"
  from updates_found_first [OF assms] obtain k where
    k: "k < length prev" "bus_id (prev ! k) = data_bus_id d"
       "\<forall>j<k. bus_id (prev ! j) \<noteq> data_bus_id d"
       "transport_location_update d prev = prev[k := ?tb k]"
       "student_location_update d prev = prev[k := newBus d]"
    by blast
  have lens: "length (transport_location_update d prev) = length prev"
    "length (student_location_update d prev) = length prev"
    by (simp_all add: k(4,5))
  have tids: "map bus_id (transport_location_update d prev) = map bus_id prev"
    unfolding k(4) using k(1) by (simp add: map_update list_update_same_conv)
  have sids: "map bus_id (student_location_update d prev) = map bus_id prev"
    unfolding k(5) using k(1,2) by (simp add: map_update list_update_same_conv newBus_def)
  have lt: "last_location (?tb k) = ?new" "last_location (newBus d) = ?new"
    by (simp_all add: new_location_def newBus_def)
  have at_k: "last_location (transport_location_update d prev ! k) = ?new"
    "last_location (student_location_update d prev ! k) = ?new"
    using k(1) lt by (simp_all add: k(4,5))
  have first: "\<exists>k<length prev. bus_id (prev ! k) = data_bus_id d
              \<and> (\<forall>j<k. bus_id (prev ! j) \<noteq> data_bus_id d)
              \<and> last_location (transport_location_update d prev ! k) = ?new
              \<and> last_location (student_location_update d prev ! k) = ?new"
    using k(1,2,3) at_k by blast
  have once: "(\<exists>b. filter (\<lambda>b. bus_id b = data_bus_id d) (transport_location_update d prev) = [b]
                 \<and> last_location b = ?new)
            \<and> (\<exists>b. filter (\<lambda>b. bus_id b = data_bus_id d) (student_location_update d prev) = [b]
                 \<and> last_location b = ?new)"
    if dist: "distinct (map bus_id prev)"
  proof -
    have t: "filter (\<lambda>b. bus_id b = data_bus_id d) (transport_location_update d prev) = [?tb k]"
      unfolding k(4) using dist k(1,2) by (intro replaced_entry_unique) simp_all
    have s: "filter (\<lambda>b. bus_id b = data_bus_id d) (student_location_update d prev) = [newBus d]"
      unfolding k(5) using dist k(1,2) by (intro replaced_entry_unique) (simp_all add: newBus_def)
    from t s lt show ?thesis by simp
  qed
  from lens tids sids first once show ?thesis by blast
qed

theorem location_update_overwrites_witness:
  "transport_location_update update_B1 [bus_B2, bus_B1] =
     [bus_B2, bus_B1\<lparr>status := Some ''active'',
             last_location := Some \<lparr>latitude = Fin 28.7, longitude = Fin 77.1, speed = Fin 12,
                                     timestamp = ''2024-01-01T10:05:00Z''\<rparr>\<rparr>]
   \<and> length (transport_location_update update_B1 [bus_B2, bus_B1]) = 2
   \<and> length (student_location_update update_B1 [bus_B2, bus_B1]) = 2
   \<and> map bus_id (student_location_update update_B1 [bus_B2, bus_B1]) = [''B2'', ''B1'']
   \<and> (\<exists>b. filter (\<lambda>b. bus_id b = ''B1'') (transport_location_update update_B1 [bus_B2, bus_B1]) = [b]
          \<and> last_location b = Some \<lparr>latitude = Fin 28.7, longitude = Fin 77.1, speed = Fin 12,
                                     timestamp = ''2024-01-01T10:05:00Z''\<rparr>)
   \<and> (\<exists>b. filter (\<lambda>b. bus_id b = ''B1'') (student_location_update update_B1 [bus_B2, bus_B1]) = [b]
          \<and> last_location b = Some \<lparr>latitude = Fin 28.7, longitude = Fin 77.1, speed = Fin 12,
                                     timestamp = ''2024-01-01T10:05:00Z''\<rparr>)"
proof -
  have h1: "data_bus_id update_B1 \<in> bus_id ` set [bus_B2, bus_B1]"
    by (simp add: update_B1_def bus_B1_def)
  have h2: "distinct (map bus_id [bus_B2, bus_B1])"
    by (simp add: bus_B1_def bus_B2_def)
  have run: "transport_location_update update_B1 [bus_B2, bus_B1] =
     [bus_B2, bus_B1\<lparr>status := Some ''active'',
             last_location := Some \<lparr>latitude = Fin 28.7, longitude = Fin 77.1, speed = Fin 12,
                                     timestamp = ''2024-01-01T10:05:00Z''\<rparr>\<rparr>]"
    by (simp add: transport_location_update_def update_B1_def bus_B1_def bus_B2_def new_location_def)
  from location_update_overwrites [OF h1] h2 run show ?thesis
    by (simp add: update_B1_def bus_B1_def bus_B2_def)
qed

text \<open>
  Claim C4 as stated fails on a list that holds a bus id twice, which the dashboard stores
  as the snapshot gives it: only the first entry for the bus is updated, so the result has
  two entries for the bus and the second keeps its old \<open>last_location\<close>.
\<close>

theorem location_update_duplicate_counterexample:
  "transport_buses (run transport_step
       [TMount, TBusesResponse (Some [bus_B1, bus_B1_twin]), TMessage (LocationUpdate update_B1)]
       transport_init) =
     transport_location_update update_B1 [bus_B1, bus_B1_twin]
   \<and> transport_location_update update_B1 [bus_B1, bus_B1_twin] =
       [bus_B1\<lparr>status := Some ''active'',
               last_location := Some \<lparr>latitude = Fin 28.7, longitude = Fin 77.1, speed = Fin 12,
                                       timestamp = ''2024-01-01T10:05:00Z''\<rparr>\<rparr>, bus_B1_twin]
   \<and> student_location_update update_B1 [bus_B1, bus_B1_twin] = [newBus update_B1, bus_B1_twin]
   \<and> count_list (map bus_id (transport_location_update update_B1 [bus_B1, bus_B1_twin])) ''B1'' = 2
   \<and> count_list (map bus_id (student_location_update update_B1 [bus_B1, bus_B1_twin])) ''B1'' = 2
   \<and> bus_id bus_B1_twin = data_bus_id update_B1
   \<and> last_location bus_B1_twin =
       Some \<lparr>latitude = Fin 28.6139, longitude = Fin 77.2090, speed = Fin 0,
              timestamp = ''2024-01-01T10:00:00Z''\<rparr>"
  by (simp add: transport_location_update_def student_location_update_def newBus_def
        new_location_def update_B1_def bus_B1_def bus_B1_twin_def transport_init_def)

lemma transport_update_shape:
  "\<exists>k b. transport_location_update d prev = prev[k := b]
         \<and> (k < length prev \<longrightarrow> bus_id (prev ! k) = data_bus_id d
               \<and> b = (prev ! k)\<lparr>status := Some ''active'', last_location := Some (new_location d)\<rparr>)"
proof (cases "data_bus_id d \<in> bus_id ` set prev")
  case True
  from transport_update_found [OF True] show ?thesis by blast
next
  case False
  then have "transport_location_update d prev = prev[length prev := undefined]"
    by (simp add: transport_update_missing list_update_beyond)
  then show ?thesis by (intro exI [of _ "length prev"]) auto
qed

lemma student_update_shape:
  "\<exists>k. take (length prev) (student_location_update d prev) = prev[k := newBus d]
       \<and> (k < length prev \<longrightarrow> bus_id (prev ! k) = data_bus_id d)"
proof (cases "data_bus_id d \<in> bus_id ` set prev")
  case True
  from student_update_found [OF True] show ?thesis by auto
next
  case False
  then have "take (length prev) (student_location_update d prev) = prev[length prev := newBus d]"
    by (simp add: student_update_missing list_update_beyond)
  then show ?thesis by (intro exI [of _ "length prev"]) auto
qed

text \<open>
  Claim C9. A location update changes at most one entry of the list: every bus whose id
  differs from the event's \<open>bus_id\<close> is left as it was, in both dashboards. When no bus
  of the list has the event's \<open>bus_id\<close>, the transport dashboard leaves the whole list
  unchanged and the student dashboard appends one new entry for that bus.
\<close>

theorem location_update_frame:
  "(\<forall>i<length prev. bus_id (prev ! i) \<noteq> data_bus_id d \<longrightarrow>
       transport_location_update d prev ! i = prev ! i
       \<and> student_location_update d prev ! i = prev ! i)
   \<and> (\<exists>k. \<forall>i<length prev. i \<noteq> k \<longrightarrow> transport_location_update d prev ! i = prev ! i)
   \<and> (\<exists>k. \<forall>i<length prev. i \<noteq> k \<longrightarrow> student_location_update d prev ! i = prev ! i)
   \<and> (data_bus_id d \<notin> bus_id ` set prev \<longrightarrow>
       transport_location_update d prev = prev
       \<and> student_location_update d prev =
           prev @ [\<lparr>bus_id = data_bus_id d, bus_number = data_bus_number d, capacity = None,
                    route_name = None, status = Some ''active'', driver_id = None,
                    last_location = Some \<lparr>latitude = data_latitude d, longitude = data_longitude d,
                                            speed = data_speed d, timestamp = data_timestamp d\<rparr>\<rparr>])"
proof -
  obtain k b where t: "transport_location_update d prev = prev[k := b]"
      "k < length prev \<longrightarrow> bus_id (prev ! k) = data_bus_id d"
    using transport_update_shape [where d = d and prev = prev] by blast
  obtain j where s: "take (length prev) (student_location_update d prev) = prev[j := newBus d]"
      "j < length prev \<longrightarrow> bus_id (prev ! j) = data_bus_id d"
    using student_update_shape [where d = d and prev = prev] by blast
  have snth: "student_location_update d prev ! i = (prev[j := newBus d]) ! i" if "i < length prev" for i
    using that s(1) by (metis nth_take)
  have other: "transport_location_update d prev ! i = prev ! i
               \<and> student_location_update d prev ! i = prev ! i"
    if "i < length prev" "bus_id (prev ! i) \<noteq> data_bus_id d" for i
  proof -
    from that t(2) have "i \<noteq> k" by auto
    moreover from that s(2) have "i \<noteq> j" by auto
    ultimately show ?thesis using that(1) by (simp add: t(1) snth)
  qed
  have tk: "\<forall>i<length prev. i \<noteq> k \<longrightarrow> transport_location_update d prev ! i = prev ! i"
    by (simp add: t(1))
  have sj: "\<forall>i<length prev. i \<noteq> j \<longrightarrow> student_location_update d prev ! i = prev ! i"
    by (simp add: snth)
  have missing: "transport_location_update d prev = prev
       \<and> student_location_update d prev =
           prev @ [\<lparr>bus_id = data_bus_id d, bus_number = data_bus_number d, capacity = None,
                    route_name = None, status = Some ''active'', driver_id = None,
                    last_location = Some \<lparr>latitude = data_latitude d, longitude = data_longitude d,
                                            speed = data_speed d, timestamp = data_timestamp d\<rparr>\<rparr>]"
    if "data_bus_id d \<notin> bus_id ` set prev"
    using that by (simp add: transport_update_missing student_update_missing newBus_def new_location_def)
  from other tk sj missing show ?thesis by blast
qed

theorem location_update_frame_witness:
  "transport_location_update update_B1 [bus_B2, bus_B1] ! 0 = bus_B2
   \<and> student_location_update update_B1 [bus_B2, bus_B1] ! 0 = bus_B2
   \<and> transport_location_update update_B9 [bus_B2, bus_B1] = [bus_B2, bus_B1]
   \<and> student_location_update update_B9 [bus_B2, bus_B1] =
       [bus_B2, bus_B1,
        \<lparr>bus_id = ''B9'', bus_number = ''109'', capacity = None, route_name = None,
         status = Some ''active'', driver_id = None,
         last_location = Some \<lparr>latitude = Fin 28.5, longitude = Fin 77.3, speed = Fin 0,
                                 timestamp = ''2024-01-01T10:06:00Z''\<rparr>\<rparr>]"
proof -
  have h1: "(0::nat) < length [bus_B2, bus_B1]" by simp
  have h2: "bus_id ([bus_B2, bus_B1] ! 0) \<noteq> data_bus_id update_B1"
    by (simp add: bus_B2_def update_B1_def)
  have h3: "data_bus_id update_B9 \<notin> bus_id ` set [bus_B2, bus_B1]"
    by (simp add: bus_B1_def bus_B2_def update_B9_def)
  from location_update_frame [where prev = "[bus_B2, bus_B1]" and d = update_B1] h1 h2
  have a: "transport_location_update update_B1 [bus_B2, bus_B1] ! 0 = bus_B2
   \<and> student_location_update update_B1 [bus_B2, bus_B1] ! 0 = bus_B2"
    by (metis nth_Cons_0)
  from location_update_frame [where prev = "[bus_B2, bus_B1]" and d = update_B9] h3
  have b: "transport_location_update update_B9 [bus_B2, bus_B1] = [bus_B2, bus_B1]
   \<and> student_location_update update_B9 [bus_B2, bus_B1] =
       [bus_B2, bus_B1] @ [\<lparr>bus_id = data_bus_id update_B9, bus_number = data_bus_number update_B9, capacity = None,
                    route_name = None, status = Some ''active'', driver_id = None,
                    last_location = Some \<lparr>latitude = data_latitude update_B9, longitude = data_longitude update_B9,
                                            speed = data_speed update_B9, timestamp = data_timestamp update_B9\<rparr>\<rparr>]"
    by blast
  from a b show ?thesis by (simp add: update_B9_def)
qed

section \<open>What changes a bus's status\<close>











section \<open>The streaming connection: snapshots and subscriptions\<close>

lemma requests_subscribe_effect: "requests (subscribe_effect r) = []"
  by (simp add: subscribe_effect_def requests_def)

lemma sent_messages_append: "sent_messages (xs @ ys) = sent_messages xs @ sent_messages ys"
  by (induction xs rule: sent_messages.induct) simp_all

lemma sent_messages_subscribe_effect:
  "sent_messages (subscribe_effect r) =
     (if r = 1 then [\<lparr>event = ''subscribe'', channel = ''bus_locations''\<rparr>,
                     \<lparr>event = ''subscribe'', channel = ''emergency_alerts''\<rparr>]
      else [])"
  by (simp add: subscribe_effect_def)

lemma transport_step_sent:
  "sent_messages (snd (transport_step e s)) = [] \<or>
   sent_messages (snd (transport_step e s)) =
     [\<lparr>event = ''subscribe'', channel = ''bus_locations''\<rparr>,
      \<lparr>event = ''subscribe'', channel = ''emergency_alerts''\<rparr>]"
  by (cases "(e, s)" rule: transport_step.cases)
     (auto simp: sent_messages_append sent_messages_subscribe_effect Let_def split: http_result.splits)

lemma student_step_sent:
  "sent_messages (snd (student_step e s)) = [] \<or>
   sent_messages (snd (student_step e s)) =
     [\<lparr>event = ''subscribe'', channel = ''bus_locations''\<rparr>,
      \<lparr>event = ''subscribe'', channel = ''emergency_alerts''\<rparr>]"
  by (cases "(e, s)" rule: student_step.cases)
     (auto simp: sent_messages_append sent_messages_subscribe_effect split: option.splits)

text \<open>
  Claim C5, as the code has it. At the mount each dashboard fetches its snapshot endpoints
  (\<open>/buses\<close> and \<open>/emergency\<close> on the transport dashboard, \<open>/locations/latest\<close> on the student
  dashboard). A change of the connection's state, a reconnect included, issues no request:
  all it does is send the two subscribe messages when the state changes to OPEN, and nothing
  otherwise.
\<close>

theorem snapshot_fetched_at_mount_only:
  "requests (snd (transport_step TMount ts)) = [ApiGet ''/buses'', ApiGet ''/emergency'']
   \<and> requests (snd (student_step SMount ss)) = [ApiGet ''/locations/latest'']
   \<and> requests (snd (transport_step (TReadyState r) ts)) = []
   \<and> requests (snd (student_step (SReadyState r) ss)) = []
   \<and> snd (transport_step (TReadyState r) ts) =
       (if r \<noteq> transport_readyState ts \<and> r = 1
        then [SendJsonMessage \<lparr>event = ''subscribe'', channel = ''bus_locations''\<rparr>,
              SendJsonMessage \<lparr>event = ''subscribe'', channel = ''emergency_alerts''\<rparr>]
        else [])
   \<and> snd (student_step (SReadyState r) ss) =
       (if r \<noteq> student_readyState ss \<and> r = 1
        then [SendJsonMessage \<lparr>event = ''subscribe'', channel = ''bus_locations''\<rparr>,
              SendJsonMessage \<lparr>event = ''subscribe'', channel = ''emergency_alerts''\<rparr>]
        else [])"
proof -
  have app: "requests (xs @ ys) = requests xs @ requests ys" for xs ys
    by (simp add: requests_def)
  have mount: "requests (snd (transport_step TMount ts)) = [ApiGet ''/buses'', ApiGet ''/emergency'']"
    "requests (snd (student_step SMount ss)) = [ApiGet ''/locations/latest'']"
    by (simp_all add: app requests_subscribe_effect) (simp_all add: requests_def)
  have change: "requests (snd (transport_step (TReadyState r) ts)) = []"
    "requests (snd (student_step (SReadyState r) ss)) = []"
    by (simp_all add: requests_subscribe_effect) (simp_all add: requests_def)
  have sends: "snd (transport_step (TReadyState r) ts) =
       (if r \<noteq> transport_readyState ts \<and> r = 1
        then [SendJsonMessage \<lparr>event = ''subscribe'', channel = ''bus_locations''\<rparr>,
              SendJsonMessage \<lparr>event = ''subscribe'', channel = ''emergency_alerts''\<rparr>]
        else [])"
    "snd (student_step (SReadyState r) ss) =
       (if r \<noteq> student_readyState ss \<and> r = 1
        then [SendJsonMessage \<lparr>event = ''subscribe'', channel = ''bus_locations''\<rparr>,
              SendJsonMessage \<lparr>event = ''subscribe'', channel = ''emergency_alerts''\<rparr>]
        else [])"
    by (simp_all add: subscribe_effect_def)
  from mount change sends show ?thesis by (intro conjI)
qed

theorem snapshot_fetched_at_mount_only_witness:
  "requests (snd (transport_step TMount transport_init)) = [ApiGet ''/buses'', ApiGet ''/emergency'']
   \<and> requests (snd (student_step SMount student_init)) = [ApiGet ''/locations/latest'']
   \<and> requests (snd (transport_step (TReadyState 1) transport_init)) = []
   \<and> requests (snd (student_step (SReadyState 1) student_init)) = []
   \<and> snd (transport_step (TReadyState 1) transport_init) =
        [SendJsonMessage \<lparr>event = ''subscribe'', channel = ''bus_locations''\<rparr>,
         SendJsonMessage \<lparr>event = ''subscribe'', channel = ''emergency_alerts''\<rparr>]
   \<and> snd (student_step (SReadyState 1) student_init) =
        [SendJsonMessage \<lparr>event = ''subscribe'', channel = ''bus_locations''\<rparr>,
         SendJsonMessage \<lparr>event = ''subscribe'', channel = ''emergency_alerts''\<rparr>]
   \<and> snd (transport_step (TReadyState 3) (transport_init\<lparr>transport_readyState := 1\<rparr>)) = []
   \<and> snd (student_step (SReadyState 3) (student_init\<lparr>student_readyState := 1\<rparr>)) = []"
  using snapshot_fetched_at_mount_only [of transport_init student_init 1]
    snapshot_fetched_at_mount_only
      [of "transport_init\<lparr>transport_readyState := 1\<rparr>" "student_init\<lparr>student_readyState := 1\<rparr>" 3]
  by (simp add: transport_init_def student_init_def subscribe_effect_def requests_def)

text \<open>
  Claim C5 as stated fails: the connection opens, closes and opens again, and the step in
  which it opens again sends the two subscribe messages and fetches nothing.
\<close>

theorem reconnect_refetch_counterexample:
  "transport_readyState (run transport_step [TMount, TReadyState 1, TReadyState 3, TReadyState 0]
       transport_init) = 0
   \<and> requests (snd (transport_step (TReadyState 1)
        (run transport_step [TMount, TReadyState 1, TReadyState 3, TReadyState 0] transport_init))) = []
   \<and> sent_messages (snd (transport_step (TReadyState 1)
        (run transport_step [TMount, TReadyState 1, TReadyState 3, TReadyState 0] transport_init))) =
       [\<lparr>event = ''subscribe'', channel = ''bus_locations''\<rparr>,
        \<lparr>event = ''subscribe'', channel = ''emergency_alerts''\<rparr>]
   \<and> requests (snd (student_step (SReadyState 1)
        (run student_step [SMount, SReadyState 1, SReadyState 3, SReadyState 0] student_init))) = []
   \<and> sent_messages (snd (student_step (SReadyState 1)
        (run student_step [SMount, SReadyState 1, SReadyState 3, SReadyState 0] student_init))) =
       [\<lparr>event = ''subscribe'', channel = ''bus_locations''\<rparr>,
        \<lparr>event = ''subscribe'', channel = ''emergency_alerts''\<rparr>]"
  by (simp add: transport_init_def student_init_def subscribe_effect_def requests_def)

text \<open>
  Claim C6. Every message a dashboard sends on the streaming connection is
  \<open>{event: "subscribe", channel: c}\<close> with \<open>c\<close> one of \<open>bus_locations\<close> and
  \<open>emergency_alerts\<close>; and each time the connection becomes open (its state changes to
  OPEN, or the component mounts with the connection open) the dashboard sends exactly one
  subscribe message for each of the two channels.
\<close>

theorem subscribe_messages:
  "(\<forall>m \<in> set (sent_messages (snd (transport_step te ts))).
       event m = ''subscribe'' \<and> channel m \<in> {''bus_locations'', ''emergency_alerts''})
   \<and> (\<forall>m \<in> set (sent_messages (snd (student_step se ss))).
       event m = ''subscribe'' \<and> channel m \<in> {''bus_locations'', ''emergency_alerts''})
   \<and> (transport_readyState ts \<noteq> 1 \<longrightarrow>
        sent_messages (snd (transport_step (TReadyState 1) ts)) =
          [\<lparr>event = ''subscribe'', channel = ''bus_locations''\<rparr>,
           \<lparr>event = ''subscribe'', channel = ''emergency_alerts''\<rparr>])
   \<and> (student_readyState ss \<noteq> 1 \<longrightarrow>
        sent_messages (snd (student_step (SReadyState 1) ss)) =
          [\<lparr>event = ''subscribe'', channel = ''bus_locations''\<rparr>,
           \<lparr>event = ''subscribe'', channel = ''emergency_alerts''\<rparr>])
   \<and> (transport_readyState ts = 1 \<longrightarrow>
        sent_messages (snd (transport_step TMount ts)) =
          [\<lparr>event = ''subscribe'', channel = ''bus_locations''\<rparr>,
           \<lparr>event = ''subscribe'', channel = ''emergency_alerts''\<rparr>])
   \<and> (student_readyState ss = 1 \<longrightarrow>
        sent_messages (snd (student_step SMount ss)) =
          [\<lparr>event = ''subscribe'', channel = ''bus_locations''\<rparr>,
           \<lparr>event = ''subscribe'', channel = ''emergency_alerts''\<rparr>])"
proof -
  have t: "\<forall>m \<in> set (sent_messages (snd (transport_step te ts))).
       event m = ''subscribe'' \<and> channel m \<in> {''bus_locations'', ''emergency_alerts''}"
    using transport_step_sent [of te ts] by auto
  have s: "\<forall>m \<in> set (sent_messages (snd (student_step se ss))).
       event m = ''subscribe'' \<and> channel m \<in> {''bus_locations'', ''emergency_alerts''}"
    using student_step_sent [of se ss] by auto
  from t s show ?thesis
    by (simp add: sent_messages_append sent_messages_subscribe_effect)
qed

theorem subscribe_messages_witness:
  "transport_readyState transport_init \<noteq> 1
   \<and> sent_messages (snd (transport_step (TReadyState 1) transport_init)) =
          [\<lparr>event = ''subscribe'', channel = ''bus_locations''\<rparr>,
           \<lparr>event = ''subscribe'', channel = ''emergency_alerts''\<rparr>]
   \<and> student_readyState student_init \<noteq> 1
   \<and> sent_messages (snd (student_step (SReadyState 1) student_init)) =
          [\<lparr>event = ''subscribe'', channel = ''bus_locations''\<rparr>,
           \<lparr>event = ''subscribe'', channel = ''emergency_alerts''\<rparr>]
   \<and> sent_messages (snd (transport_step TMount (transport_init\<lparr>transport_readyState := 1\<rparr>))) =
          [\<lparr>event = ''subscribe'', channel = ''bus_locations''\<rparr>,
           \<lparr>event = ''subscribe'', channel = ''emergency_alerts''\<rparr>]
   \<and> sent_messages (snd (student_step SMount (student_init\<lparr>student_readyState := 1\<rparr>))) =
          [\<lparr>event = ''subscribe'', channel = ''bus_locations''\<rparr>,
           \<lparr>event = ''subscribe'', channel = ''emergency_alerts''\<rparr>]"
proof -
  have h: "transport_readyState transport_init \<noteq> 1" "student_readyState student_init \<noteq> 1"
    by (simp_all add: transport_init_def student_init_def)
  from subscribe_messages [where ts = transport_init and ss = student_init] h
       subscribe_messages [where ts = "transport_init\<lparr>transport_readyState := 1\<rparr>"
                             and ss = "student_init\<lparr>student_readyState := 1\<rparr>"]
  show ?thesis by simp
qed

section \<open>Roles and routes\<close>










section \<open>Emergency reports\<close>

lemma handleEmergency_sends:
  assumes "selectedBus s \<noteq> []" "form_latitude (location s) \<noteq> []" "form_longitude (location s) \<noteq> []"
  shows "requests (snd (handleEmergency pf usr resp s)) =
           [ApiPostEmergency
              \<lparr>em_bus_id = selectedBus s, em_driver_id = user_id usr,
               em_latitude = pf (form_latitude (location s)),
               em_longitude = pf (form_longitude (location s)),
               em_description = (if emergencyDesc s \<noteq> [] then emergencyDesc s
                                 else ''Emergency situation reported by driver'')\<rparr>]"
  using assms by (auto simp: handleEmergency_def requests_def Let_def split: http_result.splits)

lemma handleEmergency_blocked:
  assumes "selectedBus s = [] \<or> form_latitude (location s) = [] \<or> form_longitude (location s) = []"
  shows "handleEmergency pf usr resp s = (s, [ToastError (JString ''Please ensure bus and location are set'')])"
  using assms by (auto simp: handleEmergency_def)

text \<open>
  Claim C10. Every emergency request the driver dashboard sends carries a non-empty
  description: the text the driver entered when that is not empty, and otherwise
  \<open>Emergency situation reported by driver\<close>. When the request has been sent and has
  succeeded, the description input is empty afterwards.
\<close>

theorem emergency_description:
  "(\<forall>req. ApiPostEmergency req \<in> set (snd (handleEmergency pf usr resp s)) \<longrightarrow>
       em_description req \<noteq> []
       \<and> em_description req = (if emergencyDesc s \<noteq> [] then emergencyDesc s
                               else ''Emergency situation reported by driver''))
   \<and> (resp = Resolved \<and> requests (snd (handleEmergency pf usr resp s)) \<noteq> [] \<longrightarrow>
        emergencyDesc (fst (handleEmergency pf usr resp s)) = [])"
proof (cases "selectedBus s = [] \<or> form_latitude (location s) = [] \<or> form_longitude (location s) = []")
  case True
  then have "handleEmergency pf usr resp s =
               (s, [ToastError (JString ''Please ensure bus and location are set'')])"
    by (rule handleEmergency_blocked)
  then show ?thesis by (simp add: requests_def)
next
  case False
  let ?req = "\<lparr>em_bus_id = selectedBus s, em_driver_id = user_id usr,
               em_latitude = pf (form_latitude (location s)),
               em_longitude = pf (form_longitude (location s)),
               em_description = (if emergencyDesc s \<noteq> [] then emergencyDesc s
                                 else ''Emergency situation reported by driver'')\<rparr>"
  have only: "req = ?req" if "ApiPostEmergency req \<in> set (snd (handleEmergency pf usr resp s))" for req
    using that False by (cases resp) (simp_all add: handleEmergency_def Let_def)
  have described: "em_description ?req \<noteq> []
      \<and> em_description ?req = (if emergencyDesc s \<noteq> [] then emergencyDesc s
                                  else ''Emergency situation reported by driver'')"
    by simp
  have first: "\<forall>req. ApiPostEmergency req \<in> set (snd (handleEmergency pf usr resp s)) \<longrightarrow>
       em_description req \<noteq> []
       \<and> em_description req = (if emergencyDesc s \<noteq> [] then emergencyDesc s
                               else ''Emergency situation reported by driver'')"
  proof (intro allI impI)
    fix req assume "ApiPostEmergency req \<in> set (snd (handleEmergency pf usr resp s))"
    then have "req = ?req" by (rule only)
    then show "em_description req \<noteq> []
       \<and> em_description req = (if emergencyDesc s \<noteq> [] then emergencyDesc s
                               else ''Emergency situation reported by driver'')"
      using described by simp
  qed
  have cleared: "emergencyDesc (fst (handleEmergency pf usr Resolved s)) = []"
    using False by (simp add: handleEmergency_def Let_def)
  then have second: "resp = Resolved \<and> requests (snd (handleEmergency pf usr resp s)) \<noteq> [] \<longrightarrow>
        emergencyDesc (fst (handleEmergency pf usr resp s)) = []"
    by blast
  from first second show ?thesis by (rule conjI)
qed

theorem emergency_description_witness:
  "requests (snd (handleEmergency parseFloat_plain driver_D1 Resolved (driver_at ''B1'' ''90'' ''-180''))) =
     [ApiPostEmergency
        \<lparr>em_bus_id = ''B1'', em_driver_id = ''D1'', em_latitude = Fin 90, em_longitude = Fin (- 180),
         em_description = ''Emergency situation reported by driver''\<rparr>]
   \<and> ApiPostEmergency
        \<lparr>em_bus_id = ''B1'', em_driver_id = ''D1'', em_latitude = Fin 90, em_longitude = Fin (- 180),
         em_description = ''Flat tyre''\<rparr>
       \<in> set (snd (handleEmergency parseFloat_plain driver_D1 Resolved
              ((driver_at ''B1'' ''90'' ''-180'')\<lparr>emergencyDesc := ''Flat tyre''\<rparr>)))
   \<and> em_description
        \<lparr>em_bus_id = ''B1'', em_driver_id = ''D1'', em_latitude = Fin 90, em_longitude = Fin (- 180),
         em_description = ''Flat tyre''\<rparr> \<noteq> []
   \<and> emergencyDesc (fst (handleEmergency parseFloat_plain driver_D1 Resolved
        ((driver_at ''B1'' ''90'' ''-180'')\<lparr>emergencyDesc := ''Flat tyre''\<rparr>))) = []"
proof -
  let ?s = "(driver_at ''B1'' ''90'' ''-180'')\<lparr>emergencyDesc := ''Flat tyre''\<rparr>"
  let ?req = "\<lparr>em_bus_id = ''B1'', em_driver_id = ''D1'', em_latitude = Fin 90,
               em_longitude = Fin (- 180), em_description = ''Flat tyre''\<rparr>"
  note inst = emergency_description
      [where pf = parseFloat_plain and usr = driver_D1 and resp = Resolved and s = ?s]
  have default: "requests (snd (handleEmergency parseFloat_plain driver_D1 Resolved
        (driver_at ''B1'' ''90'' ''-180''))) =
     [ApiPostEmergency
        \<lparr>em_bus_id = ''B1'', em_driver_id = ''D1'', em_latitude = Fin 90, em_longitude = Fin (- 180),
         em_description = ''Emergency situation reported by driver''\<rparr>]"
    by (simp add: handleEmergency_sends driver_at_def driver_D1_def parseFloat_plain_samples)
  have sent: "requests (snd (handleEmergency parseFloat_plain driver_D1 Resolved ?s)) =
                [ApiPostEmergency ?req]"
    by (simp add: handleEmergency_sends driver_at_def driver_D1_def parseFloat_plain_samples)
  have mem: "ApiPostEmergency ?req \<in> set (snd (handleEmergency parseFloat_plain driver_D1 Resolved ?s))"
  proof -
    have "ApiPostEmergency ?req \<in> set (requests (snd (handleEmergency parseFloat_plain driver_D1 Resolved ?s)))"
      by (simp only: sent list.set insertI1)
    then show ?thesis by (simp only: requests_def set_filter mem_Collect_eq)
  qed
  have nonempty: "em_description ?req \<noteq> []"
    by (rule conjunct1 [OF mp [OF spec [OF conjunct1 [OF inst], of ?req] mem]])
  have ne: "Resolved = Resolved
            \<and> requests (snd (handleEmergency parseFloat_plain driver_D1 Resolved ?s)) \<noteq> []"
    by (simp add: sent)
  have cleared: "emergencyDesc (fst (handleEmergency parseFloat_plain driver_D1 Resolved ?s)) = []"
    by (rule mp [OF conjunct2 [OF inst] ne])
  show ?thesis
    by (intro conjI) (rule default, rule mem, rule nonempty, rule cleared)
qed

text \<open>
  Claim C1, at a latitude out of bounds. The driver has bus \<open>B1\<close> selected and the
  coordinate fields hold \<open>999\<close> and \<open>0\<close>. The location report is rejected there, but the
  emergency handler, which has no check of the bounds, sends the request with latitude 999.
\<close>

theorem emergency_out_of_bounds_is_sent:
  "\<not> valid_coordinates (parseFloat_plain ''999'') (parseFloat_plain ''0'')
   \<and> handleUpdateLocation parseFloat_plain Resolved (driver_at ''B1'' ''999'' ''0'') =
       (driver_at ''B1'' ''999'' ''0'', [ToastError (JString ''Latitude must be between -90 and 90'')])
   \<and> handleEmergency parseFloat_plain driver_D1 Resolved (driver_at ''B1'' ''999'' ''0'') =
       ((driver_at ''B1'' ''999'' ''0'')\<lparr>emergencyDesc := [], loading := False\<rparr>,
        [ApiPostEmergency
           \<lparr>em_bus_id = ''B1'', em_driver_id = ''D1'', em_latitude = Fin 999, em_longitude = Fin 0,
            em_description = ''Emergency situation reported by driver''\<rparr>,
         ToastSuccess ''Emergency alert sent to transport department''])"
  by (simp add: parseFloat_plain_samples valid_coordinates_def handleUpdateLocation_def
        handleEmergency_def driver_at_def driver_D1_def isNaN_def js_gt_def)

end
